theory Spec2Isabelle
  imports Main "HOL-Library.Char_ord" "HOL-Library.List_Lexorder"
begin

section \<open>Python values used by the two modules\<close>

text \<open>
  Strings are \<open>char list\<close>, one \<open>char\<close> per code point: the model covers text
  whose code points are below 256.
  An exception is a value of \<open>py_error\<close>; a function that may raise returns
  \<open>py_error + 'a\<close> with \<open>Inl\<close> for the exception. \<open>ValueError\<close> and
  \<open>KeyError\<close> carry the message (the missing key) the source gives them.
\<close>

datatype py_error = IndexError | KeyError string | ValueError string

text \<open>\<open>xs[i]\<close> on a list: an index from \<open>0\<close> counts from the front, a negative
  one from the back (\<open>-1\<close> is the last element), and any other raises.\<close>

definition getitem :: "'a list \<Rightarrow> int \<Rightarrow> py_error + 'a" where
  "getitem xs i =
     (if 0 \<le> i \<and> i < int (length xs) then Inr (xs ! nat i)
      else if i < 0 \<and> - int (length xs) \<le> i then Inr (xs ! nat (int (length xs) + i))
      else Inl IndexError)"

text \<open>\<open>s.startswith(p)\<close>.\<close>

definition startswith :: "string \<Rightarrow> string \<Rightarrow> bool" where
  "startswith s p = (take (length p) s = p)"

text \<open>\<open>s.split(c)\<close> for a separator of one character: never the empty list.\<close>

fun split_on :: "char \<Rightarrow> string \<Rightarrow> string list" where
  "split_on c [] = [[]]"
| "split_on c (x # xs) =
     (if x = c then [] # split_on c xs
      else (case split_on c xs of
              [] \<Rightarrow> [[x]]
            | l # ls \<Rightarrow> (x # l) # ls))"

text \<open>\<open>sep.join(xs)\<close>.\<close>

fun join :: "string \<Rightarrow> string list \<Rightarrow> string" where
  "join sep [] = []"
| "join sep [x] = x"
| "join sep (x # y # ys) = x @ sep @ join sep (y # ys)"

text \<open>\<open>s.strip(chars)\<close>: drops every leading and every trailing character that is in
  \<open>chars\<close>, each end on its own.\<close>

definition strip_chars :: "string \<Rightarrow> string \<Rightarrow> string" where
  "strip_chars chars s =
     rev (dropWhile (\<lambda>c. c \<in> set chars) (rev (dropWhile (\<lambda>c. c \<in> set chars) s)))"

text \<open>\<open>s.strip()\<close>: the same with the characters Python counts as whitespace
  (tab, line feed, vertical tab, form feed, carriage return, the four separators
  \<open>0x1C\<close> to \<open>0x1F\<close>, space, next line \<open>0x85\<close> and the no-break space
  \<open>0xA0\<close>).\<close>

definition whitespace :: string where
  "whitespace =
     [CHR 0x09, CHR 0x0A, CHR 0x0B, CHR 0x0C, CHR 0x0D,
      CHR 0x1C, CHR 0x1D, CHR 0x1E, CHR 0x1F, CHR 0x20, CHR 0x85, CHR 0xA0]"

definition strip :: "string \<Rightarrow> string" where
  "strip s = strip_chars whitespace s"

text \<open>\<open>s.lower()\<close>: the upper-case letters are \<open>A\<close> to \<open>Z\<close> and the accented
  capitals \<open>0xC0\<close> to \<open>0xDE\<close> without the multiplication sign \<open>0xD7\<close>; the
  lower-case letter of each is 32 code points further.\<close>

definition is_upper :: "char \<Rightarrow> bool" where
  "is_upper c =
     ((CHR ''A'' \<le> c \<and> c \<le> CHR ''Z'')
      \<or> (CHR 0xC0 \<le> c \<and> c \<le> CHR 0xDE \<and> c \<noteq> CHR 0xD7))"

definition lower :: "string \<Rightarrow> string" where
  "lower s = map (\<lambda>c. if is_upper c then char_of (of_char c + (32::nat)) else c) s"

text \<open>The index of the first occurrence of \<open>sub\<close> in \<open>s\<close>: \<open>s.find(sub)\<close>, with
  \<open>None\<close> for Python's \<open>-1\<close>; \<open>sub in s\<close> holds when it is not \<open>None\<close>.\<close>

fun find_sub :: "string \<Rightarrow> string \<Rightarrow> nat option" where
  "find_sub sub [] = (if sub = [] then Some 0 else None)"
| "find_sub sub (c # cs) =
     (if startswith (c # cs) sub then Some 0 else map_option Suc (find_sub sub cs))"

text \<open>\<open>d[k] = v\<close> on a dict kept in insertion order: an existing key keeps its place.\<close>

fun setitem :: "'k \<Rightarrow> 'v \<Rightarrow> ('k \<times> 'v) list \<Rightarrow> ('k \<times> 'v) list" where
  "setitem k v [] = [(k, v)]"
| "setitem k v (p # ps) = (if fst p = k then (k, v) # ps else p # setitem k v ps)"

section \<open>The output parser: \<open>MRKLAgent.get_action_and_input\<close>\<close>

definition FINAL_ANSWER_ACTION :: string where
  "FINAL_ANSWER_ACTION = ''Final Answer: ''"

text \<open>The list \<open>ps\<close>: the lines of the output that are not the empty string.\<close>

definition non_empty_lines :: "string \<Rightarrow> string list" where
  "non_empty_lines llm_output = filter (\<lambda>p. p \<noteq> []) (split_on CHR ''\<newline>'' llm_output)"

definition no_action_input_msg :: string where
  "no_action_input_msg =
     ''The last line does not have an action input, something has gone terribly wrong.''"

definition no_action_msg :: string where
  "no_action_msg =
     ''The second to last line does not have an action, something has gone terribly wrong.''"

text \<open>
  The result is the pair \<open>(action, action_input)\<close> of the source; a final answer is the
  pair whose first component is the string \<open>Final Answer\<close>. The test of the first branch
  is on the twelve characters \<open>Final Answer\<close>, the slice drops the fourteen of
  \<open>FINAL_ANSWER_ACTION\<close>.
\<close>

definition get_action_and_input :: "string \<Rightarrow> py_error + (string \<times> string)" where
  "get_action_and_input llm_output =
     (let ps = non_empty_lines llm_output in
      case getitem ps (- 1) of
        Inl e \<Rightarrow> Inl e
      | Inr last_line \<Rightarrow>
          if startswith last_line ''Final Answer''
          then Inr (''Final Answer'', drop (length FINAL_ANSWER_ACTION) last_line)
          else if \<not> startswith last_line ''Action Input: ''
          then Inl (ValueError no_action_input_msg)
          else (case getitem ps (- 2) of
                  Inl e \<Rightarrow> Inl e
                | Inr second_to_last \<Rightarrow>
                    if \<not> startswith second_to_last ''Action: ''
                    then Inl (ValueError no_action_msg)
                    else Inr (drop (length ''Action: '') second_to_last,
                              strip_chars [CHR 0x22]
                                (strip_chars '' '' (drop (length ''Action Input: '') last_line)))))"

section \<open>The agent loop: \<open>MRKLAgent.run\<close>\<close>

text \<open>The dict literals of the list \<open>tools\<close>, with their two keys.\<close>

record tool =
  tool_name :: string
  tool_description :: string

definition tools :: "tool list" where
  "tools =
     [\<lparr>tool_name = ''Calculator'',
        tool_description = ''useful for when you need to answer questions about math''\<rparr>,
      \<lparr>tool_name = ''Search'',
        tool_description = ''useful for when you need to answer questions about current events. You should ask targeted questions''\<rparr>]"

definition tool_strings :: string where
  "tool_strings =
     join ''\<newline>'' (map (\<lambda>tool. tool_name tool @ '': '' @ tool_description tool) tools)"

definition tool_names :: string where
  "tool_names = join '', '' (map tool_name tools)"

definition agent_scratchpad :: string where
  "agent_scratchpad = ''''"

definition prefix :: string where
  "prefix =
     ''Answer the following questions as best as you can. You have access to the following tools:''"

definition format_instructions :: string where
  "format_instructions =
     ''Use the following format:\<newline>'' @
     ''Question: the input question you must answer\<newline>'' @
     ''Thought: you should always think about what to do\<newline>'' @
     ''Action: the action to take, should be one of ['' @ tool_names @ '']\<newline>'' @
     ''Action Input: the input to the action\<newline>'' @
     ''Observation: the result of the action\<newline>'' @
     ''... (this Thought/Action/Action Input/Observation can repeat N times)\<newline>'' @
     ''Thought: I now know the final answer\<newline>'' @
     ''Final Answer: the final answer to the original input question''"

definition suffix :: "string \<Rightarrow> string" where
  "suffix query =
     ''Begin!\<newline>'' @
     ''Question: '' @ query @ ''\<newline>'' @
     ''Thought: '' @ agent_scratchpad @ ''\<newline>'' @
     ''        ''"

text \<open>The prompt, built once from the query \<open>run\<close> is called with, before the loop.\<close>

definition template :: "string \<Rightarrow> string" where
  "template query =
     join ''\<newline>\<newline>'' [prefix, tool_strings, format_instructions, suffix query]"

text \<open>
  The collaborators of the loop are outside the module: the prompt node (the language
  model) and the pipelines of \<open>tool_map\<close>. Each is a function of its input and of a
  world \<open>'w\<close> it may read and change, and may raise. A pipeline's \<open>run\<close> returns the
  result dict (the first component of the pair the source unpacks).
\<close>

type_synonym 'w prompt_node_fn = "string \<Rightarrow> 'w \<Rightarrow> (py_error + string list) \<times> 'w"

type_synonym 'w pipeline = "string \<Rightarrow> 'w \<Rightarrow> (py_error + (string \<rightharpoonup> string)) \<times> 'w"

record 'w mrkl_agent =
  tool_map :: "string \<rightharpoonup> 'w pipeline"
  prompt_node :: "'w prompt_node_fn"
  pipeline_names :: "string list"

text \<open>
  The state of one call of \<open>run\<close>: the local variable \<open>query\<close> and the world, and two
  logs the source does not keep, for stating what the loop did: the prompts passed to
  the prompt node and the tool invocations \<open>(action, action_input)\<close>, in order.
\<close>

record 'w run_state =
  query :: string
  world :: 'w
  prompts :: "string list"
  invocations :: "(string \<times> string) list"

datatype control = Return string | Raise py_error | Next

text \<open>One pass through the body of \<open>while True\<close>.\<close>

definition loop_body ::
  "'w mrkl_agent \<Rightarrow> string \<Rightarrow> 'w run_state \<Rightarrow> control \<times> 'w run_state" where
  "loop_body self tmpl s =
     (case prompt_node self tmpl (world s) of
        (Inl e, w1) \<Rightarrow> (Raise e, s\<lparr>world := w1, prompts := prompts s @ [tmpl]\<rparr>)
      | (Inr pred, w1) \<Rightarrow>
          (let s1 = s\<lparr>world := w1, prompts := prompts s @ [tmpl]\<rparr> in
           case getitem pred 0 of
             Inl e \<Rightarrow> (Raise e, s1)
           | Inr out \<Rightarrow>
               (case get_action_and_input out of
                  Inl e \<Rightarrow> (Raise e, s1)
                | Inr (action, action_input) \<Rightarrow>
                    if action = ''Final Answer'' then (Return action_input, s1)
                    else
                      (case tool_map self action of
                         None \<Rightarrow> (Raise (KeyError action), s1)
                       | Some next_pipeline \<Rightarrow>
                           (case next_pipeline action_input w1 of
                              (Inl e, w2) \<Rightarrow>
                                (Raise e,
                                 s1\<lparr>world := w2,
                                    invocations := invocations s1 @ [(action, action_input)]\<rparr>)
                            | (Inr result, w2) \<Rightarrow>
                                (let s2 = s1\<lparr>world := w2,
                                      invocations := invocations s1 @ [(action, action_input)]\<rparr>
                                 in case result ''output'' of
                                      None \<Rightarrow> (Raise (KeyError ''output''), s2)
                                    | Some observation \<Rightarrow>
                                        (Next, s2\<lparr>query := query s2 @ observation\<rparr>)))))))"

text \<open>
  The loop has no bound in the source. \<open>while_True n\<close> runs at most \<open>n\<close> passes;
  \<open>None\<close> says that the loop was still running after them.
\<close>

fun while_True ::
  "nat \<Rightarrow> 'w mrkl_agent \<Rightarrow> string \<Rightarrow> 'w run_state \<Rightarrow> (py_error + string) option \<times> 'w run_state" where
  "while_True 0 self tmpl s = (None, s)"
| "while_True (Suc n) self tmpl s =
     (case loop_body self tmpl s of
        (Return answer, s') \<Rightarrow> (Some (Inr answer), s')
      | (Raise e, s') \<Rightarrow> (Some (Inl e), s')
      | (Next, s') \<Rightarrow> while_True n self tmpl s')"

definition run ::
  "nat \<Rightarrow> 'w mrkl_agent \<Rightarrow> string \<Rightarrow> 'w \<Rightarrow> (py_error + string) option \<times> 'w run_state" where
  "run n self q w =
     while_True n self (template q) \<lparr>query = q, world = w, prompts = [], invocations = []\<rparr>"

section \<open>The schema generator: \<open>ServiceContainer\<close>\<close>

text \<open>
  What the generator reads of a function through \<open>inspect\<close>. An annotation is an
  arbitrary object; the generator reads its truth value, its \<open>str\<close> and, when it has
  the attribute, the keys of \<open>__members__\<close>. A function is its \<open>__name__\<close>, the
  result of \<open>inspect.getdoc\<close> (\<open>None\<close> when there is no docstring) and the fields
  of \<open>inspect.getfullargspec\<close>: \<open>args\<close> (the positional parameters), \<open>varargs\<close>
  and \<open>varkw\<close> (the names after \<open>*\<close> and \<open>**\<close>, or \<open>None\<close>), \<open>defaults\<close>
  (\<open>None\<close> or the tuple of the positional default values), \<open>kwonlyargs\<close> (the
  keyword-only parameters), \<open>kwonlydefaults\<close> (their default values by name, empty
  for \<open>None\<close>) and \<open>annotations\<close>. The generator reads \<open>args\<close>, \<open>defaults\<close>
  and \<open>annotations\<close>.
\<close>

record annotation =
  ann_truthy :: bool
  ann_str :: string
  ann_members :: "string list option"

record 'v func =
  func_name :: string
  func_doc :: "string option"
  args :: "string list"
  varargs :: "string option"
  varkw :: "string option"
  defaults :: "'v list option"
  kwonlyargs :: "string list"
  kwonlydefaults :: "string \<rightharpoonup> 'v"
  annotations :: "string \<rightharpoonup> annotation"

text \<open>
  The dicts of the generated description. \<open>json.dumps\<close> writes the description as
  text and \<open>generate_descriptions\<close> reads it back with \<open>json.loads\<close>; on dicts of
  strings and lists of strings the second undoes the first, and the model keeps the
  description as the structured value.
\<close>

record param_info =
  info_type :: string
  info_description :: string
  info_enum :: "string list option"

record parameter_schema =
  schema_type :: string
  properties :: "(string \<times> param_info) list"
  required :: "string list"

record representation =
  name :: string
  description :: string
  parameters :: parameter_schema

definition extract_description :: "string \<Rightarrow> string" where
  "extract_description docstring =
     (let lines = split_on CHR ''\<newline>'' (strip docstring);
          description_lines = takeWhile (\<lambda>line. \<not> startswith (strip line) '':'') lines
      in strip (join ''\<newline>'' description_lines))"

text \<open>The description of one parameter, read from the docstring after its
  \<open>:param <arg>:\<close> marker up to the next \<open>:param\<close>, or the empty string.\<close>

definition param_description :: "string \<Rightarrow> string \<Rightarrow> string" where
  "param_description docstring arg =
     (let param_doc = '':param '' @ arg @ '':'' in
      case find_sub param_doc docstring of
        None \<Rightarrow> []
      | Some i \<Rightarrow>
          (let param_desc_start = i + length param_doc in
           case find_sub '':param'' (drop param_desc_start docstring) of
             None \<Rightarrow> strip (drop param_desc_start docstring)
           | Some j \<Rightarrow> strip (take j (drop param_desc_start docstring))))"

definition no_docstring_msg :: "string \<Rightarrow> string" where
  "no_docstring_msg fname = ''No docstring provided for function '' @ fname"

definition no_annotation_msg :: "string \<Rightarrow> string \<Rightarrow> string" where
  "no_annotation_msg arg fname =
     ''No type annotation for parameter '' @ arg @ '' in function '' @ fname"

text \<open>The loop over \<open>func_info.args\<close>, with the dict \<open>properties\<close> built so far.\<close>

fun collect_properties ::
  "'v func \<Rightarrow> string \<Rightarrow> string list \<Rightarrow> (string \<times> param_info) list
     \<Rightarrow> py_error + (string \<times> param_info) list" where
  "collect_properties f docstring [] props = Inr props"
| "collect_properties f docstring (arg # rest) props =
     (if arg = ''self'' then collect_properties f docstring rest props
      else
        (case annotations f arg of
           None \<Rightarrow> Inl (ValueError (no_annotation_msg arg (func_name f)))
         | Some arg_annotation \<Rightarrow>
             if \<not> ann_truthy arg_annotation
             then Inl (ValueError (no_annotation_msg arg (func_name f)))
             else
               collect_properties f docstring rest
                 (setitem arg
                    \<lparr>info_type = lower (ann_str arg_annotation),
                       info_description = param_description docstring arg,
                       info_enum = ann_members arg_annotation\<rparr>
                    props)))"

text \<open>\<open>func_info.args[-len(func_info.defaults):]\<close> when there are defaults.\<close>

definition optional_args :: "'v func \<Rightarrow> string list" where
  "optional_args f =
     (case defaults f of
        None \<Rightarrow> []
      | Some ds \<Rightarrow> if ds = [] then [] else drop (length (args f) - length ds) (args f))"

definition generate_description :: "'v func \<Rightarrow> py_error + representation" where
  "generate_description f =
     (case func_doc f of
        None \<Rightarrow> Inl (ValueError (no_docstring_msg (func_name f)))
      | Some docstring \<Rightarrow>
          if docstring = [] then Inl (ValueError (no_docstring_msg (func_name f)))
          else
            (case collect_properties f docstring (args f) [] of
               Inl e \<Rightarrow> Inl e
             | Inr props \<Rightarrow>
                 Inr \<lparr>name = func_name f,
                      description = extract_description docstring,
                      parameters =
                        \<lparr>schema_type = ''object'',
                           properties = props,
                           required =
                             filter (\<lambda>arg. arg \<notin> set (optional_args f) \<and> arg \<noteq> ''self'')
                               (args f)\<rparr>\<rparr>))"

text \<open>
  A class is the list of its attributes, name and value, in the order they are
  declared; a value is a function or something else. \<open>inspect.getmembers\<close> with the
  predicate \<open>inspect.isfunction\<close> is Python's: it returns the pairs whose value is a
  function, sorted by name (strings compare character by character).
\<close>

datatype 'v member = Function "'v func" | Other

type_synonym 'v py_class = "(string \<times> 'v member) list"

fun functions_of :: "'v py_class \<Rightarrow> (string \<times> 'v func) list" where
  "functions_of [] = []"
| "functions_of ((n, Function f) # ms) = (n, f) # functions_of ms"
| "functions_of ((n, Other) # ms) = functions_of ms"

definition getmembers_isfunction :: "'v py_class \<Rightarrow> (string \<times> 'v func) list" where
  "getmembers_isfunction cls = sort_key fst (functions_of cls)"

text \<open>The loop of \<open>generate_descriptions\<close>: the first description that fails ends it.\<close>

fun describe_members ::
  "(string \<times> 'v func) list \<Rightarrow> representation list \<Rightarrow> py_error + representation list" where
  "describe_members [] descriptions = Inr descriptions"
| "describe_members ((n, f) # ms) descriptions =
     (case generate_description f of
        Inl e \<Rightarrow> Inl e
      | Inr json_repr \<Rightarrow> describe_members ms (descriptions @ [json_repr]))"

definition generate_descriptions :: "'v py_class \<Rightarrow> py_error + representation list" where
  "generate_descriptions cls = describe_members (getmembers_isfunction cls) []"

section \<open>The specification's own notions, and example inputs\<close>

text \<open>
  Stripping one layer of double quotes, present on both ends, as the specification
  words it: the counterpart of the \<open>strip\<close> call that ends \<open>get_action_and_input\<close>.
\<close>

definition spec_strip_one_quote_layer :: "string \<Rightarrow> string" where
  "spec_strip_one_quote_layer s =
     (if 2 \<le> length s \<and> hd s = CHR 0x22 \<and> last s = CHR 0x22 then butlast (tl s) else s)"

text \<open>A public member, by Python's convention: its name has no leading underscore.\<close>

definition spec_is_public :: "string \<Rightarrow> bool" where
  "spec_is_public n = (\<not> startswith n ''_'')"

text \<open>The number of declared default values.\<close>

definition n_defaults :: "'v func \<Rightarrow> nat" where
  "n_defaults f = (case defaults f of None \<Rightarrow> 0 | Some ds \<Rightarrow> length ds)"

text \<open>
  The specification's end-to-end scenario: the model first answers with an action for
  the calculator, then with the final answer; the world counts the model's calls.
\<close>

definition calculator_pipeline :: "nat pipeline" where
  "calculator_pipeline action_input w = (Inr [''output'' \<mapsto> ''4''], w)"

definition scripted_prompt_node :: "nat prompt_node_fn" where
  "scripted_prompt_node p w =
     (Inr [if w = 0
           then ''Action: Calculator\<newline>Action Input: '' @ [CHR 0x22] @ ''2+2'' @ [CHR 0x22]
           else ''Final Answer: 4''],
      Suc w)"

definition calculator_agent :: "nat mrkl_agent" where
  "calculator_agent =
     \<lparr>tool_map = [''Calculator'' \<mapsto> calculator_pipeline],
      prompt_node = scripted_prompt_node,
      pipeline_names = [''Calculator'']\<rparr>"



text \<open>An agent whose registry holds one tool, which the list \<open>tools\<close> does not name.\<close>

definition weather_pipeline :: "nat pipeline" where
  "weather_pipeline action_input w = (Inr [''output'' \<mapsto> ''sunny''], w)"

definition weather_agent :: "nat mrkl_agent" where
  "weather_agent =
     \<lparr>tool_map = [''Weather'' \<mapsto> weather_pipeline],
      prompt_node = scripted_prompt_node,
      pipeline_names = [''Weather'']\<rparr>"



text \<open>The specification's example \<open>f(a: int, b: str = "x")\<close>, with a docstring.\<close>

definition int_annotation :: annotation where
  "int_annotation = \<lparr>ann_truthy = True, ann_str = ''<class 'int'>'', ann_members = None\<rparr>"

definition str_annotation :: annotation where
  "str_annotation = \<lparr>ann_truthy = True, ann_str = ''<class 'str'>'', ann_members = None\<rparr>"

definition example_f :: "string func" where
  "example_f =
     \<lparr>func_name = ''f'',
      func_doc = Some ''Combine a and b.\<newline>:param a: the count\<newline>:param b: the label'',
      args = [''a'', ''b''], varargs = None, varkw = None,
      defaults = Some [''x''], kwonlyargs = [], kwonlydefaults = Map.empty,
      annotations = [''a'' \<mapsto> int_annotation, ''b'' \<mapsto> str_annotation]\<rparr>"



text \<open>A class that declares a public method \<open>run\<close>, then a private helper, then a
  constant.\<close>

definition run_method :: "string func" where
  "run_method =
     \<lparr>func_name = ''run'', func_doc = Some ''Run the service.'', args = [''self'', ''n''],
      varargs = None, varkw = None, defaults = None, kwonlyargs = [],
      kwonlydefaults = Map.empty, annotations = [''n'' \<mapsto> int_annotation]\<rparr>"

definition helper_method :: "string func" where
  "helper_method =
     \<lparr>func_name = ''_helper'', func_doc = Some ''Internal.'', args = [''self''],
      varargs = None, varkw = None, defaults = None, kwonlyargs = [],
      kwonlydefaults = Map.empty, annotations = Map.empty\<rparr>"

definition example_class :: "string py_class" where
  "example_class =
     [(''run'', Function run_method), (''_helper'', Function helper_method), (''VERSION'', Other)]"

text \<open>The descriptions these examples are expected to get.\<close>

definition example_f_description :: representation where
  "example_f_description =
     \<lparr>name = ''f'', description = ''Combine a and b.'',
      parameters =
        \<lparr>schema_type = ''object'',
         properties =
           [(''a'', \<lparr>info_type = ''<class 'int'>'', info_description = ''the count'',
                     info_enum = None\<rparr>),
            (''b'', \<lparr>info_type = ''<class 'str'>'', info_description = ''the label'',
                     info_enum = None\<rparr>)],
         required = [''a'']\<rparr>\<rparr>"

definition run_description :: representation where
  "run_description =
     \<lparr>name = ''run'', description = ''Run the service.'',
      parameters =
        \<lparr>schema_type = ''object'',
         properties =
           [(''n'', \<lparr>info_type = ''<class 'int'>'', info_description = '''',
                     info_enum = None\<rparr>)],
         required = [''n'']\<rparr>\<rparr>"

definition helper_description :: representation where
  "helper_description =
     \<lparr>name = ''_helper'', description = ''Internal.'',
      parameters = \<lparr>schema_type = ''object'', properties = [], required = []\<rparr>\<rparr>"


text \<open>
  The method \<open>def kwonly(self, a: int = 1, *, b, c: str = 'z')\<close>, documented: the
  keyword-only parameter \<open>b\<close> has neither an annotation nor a default value.
\<close>

definition kwonly_f :: "string func" where
  "kwonly_f =
     \<lparr>func_name = ''kwonly'', func_doc = Some ''Keyword-only parameters.'',
      args = [''self'', ''a''], varargs = None, varkw = None, defaults = Some [''1''],
      kwonlyargs = [''b'', ''c''], kwonlydefaults = [''c'' \<mapsto> ''z''],
      annotations = [''a'' \<mapsto> int_annotation, ''c'' \<mapsto> str_annotation]\<rparr>"

definition kwonly_description :: representation where
  "kwonly_description =
     \<lparr>name = ''kwonly'', description = ''Keyword-only parameters.'',
      parameters =
        \<lparr>schema_type = ''object'',
         properties =
           [(''a'', \<lparr>info_type = ''<class 'int'>'', info_description = [],
                     info_enum = None\<rparr>)],
         required = []\<rparr>\<rparr>"

text \<open>The method \<open>def m(this: int, x: int)\<close>, documented: its receiver is not named
  \<open>self\<close>.\<close>

definition this_f :: "string func" where
  "this_f =
     \<lparr>func_name = ''m'', func_doc = Some ''Receiver named this.'',
      args = [''this'', ''x''], varargs = None, varkw = None, defaults = None,
      kwonlyargs = [], kwonlydefaults = Map.empty,
      annotations = [''this'' \<mapsto> int_annotation, ''x'' \<mapsto> int_annotation]\<rparr>"

definition this_description :: representation where
  "this_description =
     \<lparr>name = ''m'', description = ''Receiver named this.'',
      parameters =
        \<lparr>schema_type = ''object'',
         properties =
           [(''this'', \<lparr>info_type = ''<class 'int'>'', info_description = [],
                        info_enum = None\<rparr>),
            (''x'', \<lparr>info_type = ''<class 'int'>'', info_description = [],
                     info_enum = None\<rparr>)],
         required = [''this'', ''x'']\<rparr>\<rparr>"

section \<open>Facts about the Python operations\<close>

lemma getitem_last: "getitem (xs @ [x]) (- 1) = Inr x"
  by (simp add: getitem_def)

lemma getitem_second_to_last: "getitem (xs @ [y, x]) (- 2) = Inr y"
  by (simp add: getitem_def nth_append)

lemma getitem_Nil: "getitem [] i = Inl IndexError"
  by (simp add: getitem_def)

lemma getitem_single_second: "getitem [x] (- 2) = Inl IndexError"
  by (simp add: getitem_def)


lemma split_on_newlines:
  "split_on CHR ''\<newline>'' (replicate n CHR ''\<newline>'') = replicate (Suc n) []"
  by (induction n) simp_all

lemma non_empty_lines_newlines: "non_empty_lines (replicate n CHR ''\<newline>'') = []"
  by (simp add: non_empty_lines_def split_on_newlines)

text \<open>What \<open>strip\<close> leaves is the middle of the string, between a run of the stripped
  characters on each side, and does not begin or end with one of them.\<close>

lemma strip_chars_decomp:
  "\<exists>l r. s = l @ strip_chars chars s @ r \<and> set l \<subseteq> set chars \<and> set r \<subseteq> set chars"
proof -
  let ?P = "\<lambda>c. c \<in> set chars"
  let ?d = "dropWhile ?P s"
  have "rev (takeWhile ?P (rev ?d) @ dropWhile ?P (rev ?d)) = rev (rev ?d)"
    by (simp only: takeWhile_dropWhile_id)
  then have "rev (dropWhile ?P (rev ?d)) @ rev (takeWhile ?P (rev ?d)) = ?d"
    by (simp only: rev_append rev_rev_ident)
  then have d: "?d = strip_chars chars s @ rev (takeWhile ?P (rev ?d))"
    by (simp only: strip_chars_def)
  have "s = takeWhile ?P s @ ?d" by simp
  with d have "s = takeWhile ?P s @ strip_chars chars s @ rev (takeWhile ?P (rev ?d))" by simp
  moreover have "set (takeWhile ?P s) \<subseteq> set chars"
    using set_takeWhileD by fastforce
  moreover have "set (rev (takeWhile ?P (rev ?d))) \<subseteq> set chars"
    using set_takeWhileD by fastforce
  ultimately show ?thesis by blast
qed

lemma strip_chars_ends:
  assumes "strip_chars chars s \<noteq> []"
  shows "hd (strip_chars chars s) \<notin> set chars \<and> last (strip_chars chars s) \<notin> set chars"
proof -
  let ?P = "\<lambda>c. c \<in> set chars"
  let ?d = "dropWhile ?P s"
  let ?e = "dropWhile ?P (rev ?d)"
  have r: "strip_chars chars s = rev ?e" by (simp add: strip_chars_def)
  with assms have e: "?e \<noteq> []" by simp
  then have "\<not> ?P (hd ?e)" by (rule hd_dropWhile)
  with e r have l: "last (strip_chars chars s) \<notin> set chars" by (simp add: last_rev)
  have "rev (takeWhile ?P (rev ?d) @ ?e) = rev (rev ?d)"
    by (simp only: takeWhile_dropWhile_id)
  then have d: "?d = rev ?e @ rev (takeWhile ?P (rev ?d))"
    by (simp only: rev_append rev_rev_ident)
  with e have "?d \<noteq> []" by (metis append_is_Nil_conv rev_is_Nil_conv)
  then have "\<not> ?P (hd ?d)" by (rule hd_dropWhile)
  moreover from d e have "hd ?d = hd (rev ?e)" by (metis hd_append2 rev_is_Nil_conv)
  ultimately have "hd (strip_chars chars s) \<notin> set chars" using r by simp
  with l show ?thesis by simp
qed

section \<open>The output parser\<close>

lemma parse_act:
  "get_action_and_input
     (''Action: Calculator\<newline>Action Input: '' @ [CHR 0x22] @ ''2+2'' @ [CHR 0x22])
   = Inr (''Calculator'', ''2+2'')"
  by (simp add: get_action_and_input_def non_empty_lines_def getitem_def startswith_def
      strip_chars_def)

lemma parse_final: "get_action_and_input ''Final Answer: 4'' = Inr (''Final Answer'', ''4'')"
  by (simp add: get_action_and_input_def non_empty_lines_def getitem_def startswith_def
      FINAL_ANSWER_ACTION_def)





text \<open>
  Claim C4, as the code has it. When the last two non-empty lines are \<open>Action: a\<close> and
  \<open>Action Input: b\<close>, the parser returns the action \<open>a\<close> unchanged, and as action
  input \<open>b\<close> without its leading and trailing spaces and then without its leading
  and trailing double quotes: every one of them, on each end on its own. The result is
  the middle of \<open>b\<close> and neither begins nor ends with a double quote.
\<close>

theorem act_directive_parsed:
  assumes "non_empty_lines llm_output = before @ [''Action: '' @ a, ''Action Input: '' @ b]"
  shows "\<exists>inp. get_action_and_input llm_output = Inr (a, inp)
           \<and> inp = strip_chars [CHR 0x22] (strip_chars '' '' b)
           \<and> (inp \<noteq> [] \<longrightarrow> hd inp \<noteq> CHR 0x22 \<and> last inp \<noteq> CHR 0x22)
           \<and> (\<exists>l r. b = l @ inp @ r \<and> set l \<subseteq> {CHR '' '', CHR 0x22}
                  \<and> set r \<subseteq> {CHR '' '', CHR 0x22})"
proof -
  define t where "t = strip_chars '' '' b"
  define inp where "inp = strip_chars [CHR 0x22] t"
  have "getitem (before @ [''Action: '' @ a, ''Action Input: '' @ b]) (- 1)
          = Inr (''Action Input: '' @ b)"
    using getitem_last [of "before @ [''Action: '' @ a]" "''Action Input: '' @ b"] by simp
  with assms have res: "get_action_and_input llm_output = Inr (a, inp)"
    by (simp add: get_action_and_input_def getitem_second_to_last startswith_def inp_def t_def)
  have ends: "inp \<noteq> [] \<longrightarrow> hd inp \<noteq> CHR 0x22 \<and> last inp \<noteq> CHR 0x22"
    using strip_chars_ends [of "[CHR 0x22]" t] by (simp add: inp_def)
  obtain l1 r1 where b: "b = l1 @ t @ r1" and l1: "set l1 \<subseteq> set '' ''" and r1: "set r1 \<subseteq> set '' ''"
    using strip_chars_decomp [of b "'' ''"] unfolding t_def by blast
  obtain l2 r2 where t: "t = l2 @ inp @ r2" and l2: "set l2 \<subseteq> set [CHR 0x22]"
    and r2: "set r2 \<subseteq> set [CHR 0x22]"
    using strip_chars_decomp [of t "[CHR 0x22]"] unfolding inp_def by blast
  from b t have "b = (l1 @ l2) @ inp @ (r2 @ r1)" by simp
  moreover from l1 l2 have "set (l1 @ l2) \<subseteq> {CHR '' '', CHR 0x22}" by auto
  moreover from r1 r2 have "set (r2 @ r1) \<subseteq> {CHR '' '', CHR 0x22}" by auto
  ultimately have "\<exists>l r. b = l @ inp @ r \<and> set l \<subseteq> {CHR '' '', CHR 0x22}
                  \<and> set r \<subseteq> {CHR '' '', CHR 0x22}" by blast
  with res ends show ?thesis by (auto simp: inp_def t_def)
qed

theorem act_directive_parsed_witness:
  "non_empty_lines
     (''Thought: compute\<newline>Action: Calculator\<newline>Action Input:  '' @ [CHR 0x22] @ ''2+2'' @ [CHR 0x22])
     = [''Thought: compute'']
       @ [''Action: '' @ ''Calculator'', ''Action Input: '' @ ('' '' @ [CHR 0x22] @ ''2+2'' @ [CHR 0x22])]
   \<and> get_action_and_input
     (''Thought: compute\<newline>Action: Calculator\<newline>Action Input:  '' @ [CHR 0x22] @ ''2+2'' @ [CHR 0x22])
     = Inr (''Calculator'', ''2+2'')"
proof -
  let ?out = "''Thought: compute\<newline>Action: Calculator\<newline>Action Input:  '' @ [CHR 0x22] @ ''2+2'' @ [CHR 0x22]"
  have h: "non_empty_lines ?out
     = [''Thought: compute'']
       @ [''Action: '' @ ''Calculator'', ''Action Input: '' @ ('' '' @ [CHR 0x22] @ ''2+2'' @ [CHR 0x22])]"
    by (simp add: non_empty_lines_def)
  have s: "strip_chars [CHR 0x22] (strip_chars '' '' ('' '' @ [CHR 0x22] @ ''2+2'' @ [CHR 0x22])) = ''2+2''"
    by (simp add: strip_chars_def)
  from act_directive_parsed [OF h] s have "get_action_and_input ?out = Inr (''Calculator'', ''2+2'')"
    by auto
  with h show ?thesis by simp
qed

text \<open>
  Claim C4 as stated fails: a double quote on one end only is stripped, and so is more
  than one layer of quotes, where the claim's stripping keeps them.
\<close>

theorem quote_stripping_counterexample:
  "get_action_and_input (''Action: Search\<newline>Action Input: '' @ [CHR 0x22] @ ''abc'')
     = Inr (''Search'', ''abc'')
   \<and> spec_strip_one_quote_layer (strip_chars '' '' ([CHR 0x22] @ ''abc'')) = [CHR 0x22] @ ''abc''
   \<and> get_action_and_input
       (''Action: Search\<newline>Action Input: '' @ [CHR 0x22, CHR 0x22] @ ''abc'' @ [CHR 0x22, CHR 0x22])
     = Inr (''Search'', ''abc'')
   \<and> spec_strip_one_quote_layer
       (strip_chars '' '' ([CHR 0x22, CHR 0x22] @ ''abc'' @ [CHR 0x22, CHR 0x22]))
     = [CHR 0x22] @ ''abc'' @ [CHR 0x22]"
  by (simp add: get_action_and_input_def non_empty_lines_def getitem_def startswith_def
      strip_chars_def spec_strip_one_quote_layer_def)

text \<open>
  With two non-empty lines or more and a last line that does not take the final branch,
  the parser raises \<open>ValueError\<close> exactly when one of the two lines lacks its marker,
  with a message for each.
\<close>

lemma malformed_directive_two_lines:
  assumes "non_empty_lines llm_output = before @ [l2, l1]"
    and "\<not> startswith l1 ''Final Answer''"
  shows "get_action_and_input llm_output =
           (if \<not> startswith l1 ''Action Input: '' then Inl (ValueError no_action_input_msg)
            else if \<not> startswith l2 ''Action: '' then Inl (ValueError no_action_msg)
            else Inr (drop (length ''Action: '') l2,
                      strip_chars [CHR 0x22]
                        (strip_chars '' '' (drop (length ''Action Input: '') l1))))"
proof -
  have "getitem (before @ [l2, l1]) (- 1) = Inr l1"
    using getitem_last [of "before @ [l2]" l1] by simp
  with assms show ?thesis
    by (simp add: get_action_and_input_def getitem_second_to_last)
qed

lemma malformed_messages_differ: "no_action_input_msg \<noteq> no_action_msg"
  by (simp add: no_action_input_msg_def no_action_msg_def)

text \<open>
  Claim C5, at the input where the code departs from it: the output is the single line
  \<open>Action Input: Y\<close>, with no \<open>Action:\<close> line before it. The parser raises
  \<open>IndexError\<close> from \<open>ps[-2]\<close>, not the \<open>ValueError\<close> of a malformed directive.
\<close>

theorem action_input_alone_index_error:
  "non_empty_lines ''Action Input: Y'' = [''Action Input: Y'']
   \<and> get_action_and_input ''Action Input: Y'' = Inl IndexError"
  by (simp add: get_action_and_input_def non_empty_lines_def getitem_def startswith_def)

text \<open>
  Claim C10, as the code has it. An output with no non-empty line (the empty text, or
  line feeds only) raises \<open>IndexError\<close>, and so does an output whose only non-empty line
  starts with \<open>Action Input: \<close>. An output whose only non-empty line starts neither with
  \<open>Final Answer\<close> nor with \<open>Action Input: \<close> raises the \<open>ValueError\<close> of the first
  check.
\<close>

theorem short_output_errors:
  "get_action_and_input (replicate n CHR ''\<newline>'') = Inl IndexError
   \<and> (non_empty_lines llm_output = [''Action Input: '' @ b]
        \<longrightarrow> get_action_and_input llm_output = Inl IndexError)
   \<and> (non_empty_lines llm_output = [l] \<and> \<not> startswith l ''Final Answer''
        \<and> \<not> startswith l ''Action Input: ''
        \<longrightarrow> get_action_and_input llm_output = Inl (ValueError no_action_input_msg))"
  by (simp add: get_action_and_input_def non_empty_lines_newlines getitem_def startswith_def)

theorem short_output_errors_witness:
  "get_action_and_input (replicate 2 CHR ''\<newline>'') = Inl IndexError
   \<and> non_empty_lines ''\<newline>Action Input: 2+2\<newline>'' = [''Action Input: '' @ ''2+2'']
   \<and> get_action_and_input ''\<newline>Action Input: 2+2\<newline>'' = Inl IndexError
   \<and> non_empty_lines ''I do not know'' = [''I do not know'']
   \<and> \<not> startswith ''I do not know'' ''Final Answer''
   \<and> \<not> startswith ''I do not know'' ''Action Input: ''
   \<and> get_action_and_input ''I do not know'' = Inl (ValueError no_action_input_msg)"
proof -
  have a: "non_empty_lines ''\<newline>Action Input: 2+2\<newline>'' = [''Action Input: '' @ ''2+2'']"
    by (simp add: non_empty_lines_def)
  have b: "non_empty_lines ''I do not know'' = [''I do not know'']
           \<and> \<not> startswith ''I do not know'' ''Final Answer''
           \<and> \<not> startswith ''I do not know'' ''Action Input: ''"
    by (simp add: non_empty_lines_def startswith_def)
  from short_output_errors [of 2 "''\<newline>Action Input: 2+2\<newline>''" "''2+2''" "''I do not know''"] a
  have c: "get_action_and_input (replicate 2 CHR ''\<newline>'') = Inl IndexError
           \<and> get_action_and_input ''\<newline>Action Input: 2+2\<newline>'' = Inl IndexError"
    by simp
  from short_output_errors [of 0 "''I do not know''" "''''" "''I do not know''"] b
  have d: "get_action_and_input ''I do not know'' = Inl (ValueError no_action_input_msg)"
    by simp
  from a b c d show ?thesis by simp
qed

text \<open>
  Claim C10 as stated fails: a text of spaces only has one non-empty line, does not take
  the final branch, and raises the \<open>ValueError\<close> of the first check, not
  \<open>IndexError\<close>.
\<close>

theorem whitespace_only_counterexample:
  "non_empty_lines ''   '' = [''   '']
   \<and> get_action_and_input ''   '' = Inl (ValueError no_action_input_msg)
   \<and> get_action_and_input ''   '' \<noteq> Inl IndexError"
  by (simp add: get_action_and_input_def non_empty_lines_def getitem_def startswith_def)

section \<open>The agent loop\<close>

text \<open>Every pass sends the prompt it is given, so every prompt of a run is the template
  built from the query the run was called with.\<close>

lemma loop_body_prompts: "prompts (snd (loop_body self t s)) = prompts s @ [t]"
  by (simp add: loop_body_def Let_def split: prod.splits sum.splits option.splits)

lemma while_True_prompts:
  "\<exists>k. prompts (snd (while_True n self t s)) = prompts s @ replicate k t"
proof (induction n arbitrary: s)
  case 0
  have "prompts (snd (while_True 0 self t s)) = prompts s @ replicate 0 t" by simp
  then show ?case by blast
next
  case (Suc n)
  obtain c s' where b: "loop_body self t s = (c, s')" by (cases "loop_body self t s")
  with loop_body_prompts [of self t s] have p: "prompts s' = prompts s @ [t]" by simp
  show ?case
  proof (cases c)
    case Next
    from Suc.IH [of s'] obtain k
      where "prompts (snd (while_True n self t s')) = prompts s' @ replicate k t" by blast
    with p b Next
    have "prompts (snd (while_True (Suc n) self t s)) = prompts s @ replicate (Suc k) t"
      by simp
    then show ?thesis by blast
  next
    case (Return a)
    with b p
    have "prompts (snd (while_True (Suc n) self t s)) = prompts s @ replicate (Suc 0) t"
      by simp
    then show ?thesis by blast
  next
    case (Raise e)
    with b p
    have "prompts (snd (while_True (Suc n) self t s)) = prompts s @ replicate (Suc 0) t"
      by simp
    then show ?thesis by blast
  qed
qed

lemma while_True_first_prompt:
  "\<exists>k. prompts (snd (while_True (Suc n) self t s)) = prompts s @ t # replicate k t"
proof -
  obtain c s' where b: "loop_body self t s = (c, s')" by (cases "loop_body self t s")
  with loop_body_prompts [of self t s] have p: "prompts s' = prompts s @ [t]" by simp
  show ?thesis
  proof (cases c)
    case Next
    from while_True_prompts [of n self t s'] obtain k
      where "prompts (snd (while_True n self t s')) = prompts s' @ replicate k t" by blast
    with p b Next
    have "prompts (snd (while_True (Suc n) self t s)) = prompts s @ t # replicate k t"
      by simp
    then show ?thesis by blast
  next
    case (Return a)
    with b p
    have "prompts (snd (while_True (Suc n) self t s)) = prompts s @ t # replicate 0 t"
      by simp
    then show ?thesis by blast
  next
    case (Raise e)
    with b p
    have "prompts (snd (while_True (Suc n) self t s)) = prompts s @ t # replicate 0 t"
      by simp
    then show ?thesis by blast
  qed
qed

lemma run_prompts_constant:
  "\<exists>k. prompts (snd (run n self q w)) = replicate k (template q)"
  using while_True_prompts
    [of n self "template q" "\<lparr>query = q, world = w, prompts = [], invocations = []\<rparr>"]
  by (simp add: run_def)

text \<open>
  Claim C1, at the specification's own scenario. The model asks for the calculator; the
  calculator returns \<open>4\<close>; the model is called a second time and gives the final
  answer. The observation is appended to the local variable \<open>query\<close>, which the loop
  never reads again: the second prompt is the first one, letter for letter, and holds
  neither the action, nor its input, nor the observation.
\<close>

theorem observation_not_in_next_prompt:
  "run 2 calculator_agent ''What is 2+2?'' 0 =
     (Some (Inr ''4''),
      \<lparr>query = ''What is 2+2?4'', world = 2,
       prompts = [template ''What is 2+2?'', template ''What is 2+2?''],
       invocations = [(''Calculator'', ''2+2'')]\<rparr>)"
proof -
  have two: "(2::nat) = Suc (Suc 0)" by simp
  show ?thesis
    unfolding two run_def
    using parse_act parse_final
    by (simp add: loop_body_def calculator_agent_def scripted_prompt_node_def
        calculator_pipeline_def getitem_def)
qed

text \<open>
  Claim C2, as the code has it. Whatever the agent and its registry, the prompts that
  \<open>run\<close> sends are the template of the query, and the template is the fixed preamble,
  the catalog of the two tools that \<open>run\<close> lists itself (Calculator and Search, one
  line \<open>name: description\<close> each), the format instructions that name these two, and
  the closing block with the query and an empty scratchpad, joined by blank lines.
\<close>

theorem template_composition:
  "(\<exists>k. prompts (snd (run (Suc n) self q w)) = template q # replicate k (template q))
   \<and> template q =
       ''Answer the following questions as best as you can. You have access to the following tools:''
       @ ''\<newline>\<newline>''
       @ ''Calculator: useful for when you need to answer questions about math\<newline>''
       @ ''Search: useful for when you need to answer questions about current events. You should ask targeted questions''
       @ ''\<newline>\<newline>''
       @ ''Use the following format:\<newline>''
       @ ''Question: the input question you must answer\<newline>''
       @ ''Thought: you should always think about what to do\<newline>''
       @ ''Action: the action to take, should be one of [Calculator, Search]\<newline>''
       @ ''Action Input: the input to the action\<newline>''
       @ ''Observation: the result of the action\<newline>''
       @ ''... (this Thought/Action/Action Input/Observation can repeat N times)\<newline>''
       @ ''Thought: I now know the final answer\<newline>''
       @ ''Final Answer: the final answer to the original input question''
       @ ''\<newline>\<newline>''
       @ ''Begin!\<newline>Question: '' @ q @ ''\<newline>Thought: \<newline>        ''
   \<and> split_on CHR ''\<newline>'' tool_strings
       = map (\<lambda>tool. tool_name tool @ '': '' @ tool_description tool) tools
   \<and> tool_names = ''Calculator, Search''"
proof -
  have a: "\<exists>k. prompts (snd (run (Suc n) self q w))
                = template q # replicate k (template q)"
    using while_True_first_prompt
      [of n self "template q"
          "\<lparr>query = q, world = w, prompts = [], invocations = []\<rparr>"]
    by (simp add: run_def)
  have n: "tool_names = ''Calculator, Search''"
    by (simp add: tool_names_def tools_def)
  have s: "tool_strings =
      ''Calculator: useful for when you need to answer questions about math\<newline>''
       @ ''Search: useful for when you need to answer questions about current events. You should ask targeted questions''"
    by (simp add: tool_strings_def tools_def)
  have b: "split_on CHR ''\<newline>'' tool_strings
       = map (\<lambda>tool. tool_name tool @ '': '' @ tool_description tool) tools"
    unfolding s by (simp add: tools_def)
  have c: "template q =
       ''Answer the following questions as best as you can. You have access to the following tools:''
       @ ''\<newline>\<newline>''
       @ ''Calculator: useful for when you need to answer questions about math\<newline>''
       @ ''Search: useful for when you need to answer questions about current events. You should ask targeted questions''
       @ ''\<newline>\<newline>''
       @ ''Use the following format:\<newline>''
       @ ''Question: the input question you must answer\<newline>''
       @ ''Thought: you should always think about what to do\<newline>''
       @ ''Action: the action to take, should be one of [Calculator, Search]\<newline>''
       @ ''Action Input: the input to the action\<newline>''
       @ ''Observation: the result of the action\<newline>''
       @ ''... (this Thought/Action/Action Input/Observation can repeat N times)\<newline>''
       @ ''Thought: I now know the final answer\<newline>''
       @ ''Final Answer: the final answer to the original input question''
       @ ''\<newline>\<newline>''
       @ ''Begin!\<newline>Question: '' @ q @ ''\<newline>Thought: \<newline>        ''"
    unfolding template_def format_instructions_def n s
    by (simp add: prefix_def suffix_def agent_scratchpad_def)
  from a b c n show ?thesis by blast
qed

text \<open>
  Claim C2 as stated fails. The registry of this agent holds the one tool \<open>Weather\<close>;
  the prompt it sends advertises Calculator and Search and does not mention
  \<open>Weather\<close>, and the advertised Calculator is not in the registry.
\<close>

theorem catalog_not_registry_counterexample:
  "dom (tool_map weather_agent) = {''Weather''}
   \<and> map tool_name tools = [''Calculator'', ''Search'']
   \<and> set (map tool_name tools) \<noteq> dom (tool_map weather_agent)
   \<and> run 1 weather_agent ''What is 2+2?'' 0 =
       (Some (Inl (KeyError ''Calculator'')),
        \<lparr>query = ''What is 2+2?'', world = 1,
         prompts = [template ''What is 2+2?''], invocations = []\<rparr>)
   \<and> find_sub ''Weather'' (template ''What is 2+2?'') = None
   \<and> find_sub ''Calculator: '' (template ''What is 2+2?'') \<noteq> None"
proof -
  have a: "dom (tool_map weather_agent) = {''Weather''}"
    by (simp add: weather_agent_def)
  have b: "map tool_name tools = [''Calculator'', ''Search'']"
    by (simp add: tools_def)
  have c: "set (map tool_name tools) \<noteq> dom (tool_map weather_agent)"
    unfolding a b by auto
  have one: "(1::nat) = Suc 0" by simp
  have d: "run 1 weather_agent ''What is 2+2?'' 0 =
       (Some (Inl (KeyError ''Calculator'')),
        \<lparr>query = ''What is 2+2?'', world = 1,
         prompts = [template ''What is 2+2?''], invocations = []\<rparr>)"
    unfolding one run_def
    using parse_act
    by (simp add: loop_body_def weather_agent_def scripted_prompt_node_def getitem_def)
  have t: "template ''What is 2+2?'' =
       ''Answer the following questions as best as you can. You have access to the following tools:\<newline>\<newline>Calculator: useful for when you need to answer questions about math\<newline>Search: useful for when you need to answer questions about current events. You should ask targeted questions\<newline>\<newline>Use the following format:\<newline>Question: the input question you must answer\<newline>Thought: you should always think about what to do\<newline>Action: the action to take, should be one of [Calculator, Search]\<newline>Action Input: the input to the action\<newline>Observation: the result of the action\<newline>... (this Thought/Action/Action Input/Observation can repeat N times)\<newline>Thought: I now know the final answer\<newline>Final Answer: the final answer to the original input question\<newline>\<newline>Begin!\<newline>Question: What is 2+2?\<newline>Thought: \<newline>        ''"
    by (simp add: template_def format_instructions_def prefix_def suffix_def
        agent_scratchpad_def tool_names_def tool_strings_def tools_def)
  have e: "find_sub ''Weather'' (template ''What is 2+2?'') = None"
    unfolding t by (simp add: startswith_def)
  have f: "find_sub ''Calculator: '' (template ''What is 2+2?'') \<noteq> None"
    unfolding t by (simp add: startswith_def)
  from a b c d e f show ?thesis by blast
qed





section \<open>The schema generator\<close>


lemma setitem_new_key: "k \<notin> fst ` set ps \<Longrightarrow> setitem k v ps = ps @ [(k, v)]"
  by (induction ps) auto



lemma collect_properties_keys:
  assumes "collect_properties f d as props = Inr ps"
    and "distinct (map fst props @ filter (\<lambda>a. a \<noteq> ''self'') as)"
  shows "map fst ps = map fst props @ filter (\<lambda>a. a \<noteq> ''self'') as"
  using assms
proof (induction as arbitrary: props)
  case Nil
  then show ?case by simp
next
  case (Cons x xs)
  show ?case
  proof (cases "x = ''self''")
    case True
    with Cons.prems Cons.IH [of props] show ?thesis by simp
  next
    case False
    with Cons.prems(1) obtain v where
      rest: "collect_properties f d xs (setitem x v props) = Inr ps"
      by (auto split: option.splits if_splits)
    from Cons.prems(2) False have new: "x \<notin> fst ` set props" by auto
    then have s: "setitem x v props = props @ [(x, v)]" by (rule setitem_new_key)
    from Cons.prems(2) False
    have "distinct (map fst (props @ [(x, v)]) @ filter (\<lambda>a. a \<noteq> ''self'') xs)" by auto
    from Cons.IH [OF rest [unfolded s] this] False show ?thesis by simp
  qed
qed

lemma optional_args_drop:
  "optional_args f = drop (length (args f) - n_defaults f) (args f)"
  by (simp add: optional_args_def n_defaults_def split: option.splits)

lemma filter_not_in_rest:
  assumes "set xs \<inter> set ys = {}"
  shows "filter (\<lambda>a. a \<notin> set ys \<and> P a) (xs @ ys) = filter P xs"
proof -
  have "filter (\<lambda>a. a \<notin> set ys \<and> P a) ys = []"
    by (simp add: filter_empty_conv)
  moreover have "filter (\<lambda>a. a \<notin> set ys \<and> P a) xs = filter P xs"
    using assms by (intro filter_cong) auto
  ultimately show ?thesis by simp
qed

lemma filter_not_in_drop:
  assumes "distinct xs"
  shows "filter (\<lambda>a. a \<notin> set (drop k xs) \<and> P a) xs = filter P (take k xs)"
proof -
  have "distinct (take k xs @ drop k xs)" using assms by simp
  then have "set (take k xs) \<inter> set (drop k xs) = {}" by (simp only: distinct_append)
  from filter_not_in_rest [OF this, of P] show ?thesis by simp
qed


text \<open>
  Claim C8, as the code has it. In a generated description, \<open>required\<close> lists the
  positional parameters (\<open>func_info.args\<close>) not named \<open>self\<close> that are not among the
  last \<open>N\<close> positional ones, \<open>N\<close> the number of positional defaults, in the order of
  the declaration, and \<open>properties\<close> has an entry for every positional parameter not
  named \<open>self\<close>, in that order too. The keyword-only and the variadic parameters are in
  neither. (Python does not let two parameters of one function share a name.)
\<close>

theorem required_parameters:
  assumes "generate_description f = Inr r" and "distinct (args f)"
  shows "required (parameters r)
           = filter (\<lambda>a. a \<noteq> ''self'') (take (length (args f) - n_defaults f) (args f))
         \<and> map fst (properties (parameters r)) = filter (\<lambda>a. a \<noteq> ''self'') (args f)"
proof -
  from assms(1) obtain doc props where
    props: "collect_properties f doc (args f) [] = Inr props"
    and p: "properties (parameters r) = props"
    and q: "required (parameters r)
              = filter (\<lambda>arg. arg \<notin> set (optional_args f) \<and> arg \<noteq> ''self'') (args f)"
    by (auto simp: generate_description_def split: option.splits if_splits sum.splits)
  from assms(2) have "distinct (map fst [] @ filter (\<lambda>a. a \<noteq> ''self'') (args f))" by simp
  from collect_properties_keys [OF props this] p
  have keys: "map fst (properties (parameters r)) = filter (\<lambda>a. a \<noteq> ''self'') (args f)" by simp
  from q filter_not_in_drop [OF assms(2), of "length (args f) - n_defaults f" "\<lambda>a. a \<noteq> ''self''"]
  have "required (parameters r)
           = filter (\<lambda>a. a \<noteq> ''self'') (take (length (args f) - n_defaults f) (args f))"
    by (simp add: optional_args_drop)
  with keys show ?thesis by simp
qed

lemma map_insort_key: "map f (insort_key f x ys) = insort (f x) (map f ys)"
  by (induction ys) simp_all

lemma map_sort_key: "map f (sort_key f xs) = sort (map f xs)"
  by (induction xs) (simp_all add: map_insort_key)

lemma describe_members_ok:
  assumes "describe_members ms acc = Inr ds"
  shows "\<exists>ds'. ds = acc @ ds' \<and> map (\<lambda>(n, f). generate_description f) ms = map Inr ds'"
  using assms
proof (induction ms arbitrary: acc)
  case Nil
  then show ?case by simp
next
  case (Cons m ms)
  obtain n f where m: "m = (n, f)" by (cases m)
  with Cons.prems obtain d where d: "generate_description f = Inr d"
    and rest: "describe_members ms (acc @ [d]) = Inr ds"
    by (auto split: sum.splits)
  from Cons.IH [OF rest] obtain ds' where
    "ds = (acc @ [d]) @ ds'" "map (\<lambda>(n, f). generate_description f) ms = map Inr ds'"
    by blast
  with m d have "ds = acc @ (d # ds') \<and>
      map (\<lambda>(n, f). generate_description f) (m # ms) = map Inr (d # ds')" by simp
  then show ?case by blast
qed

text \<open>
  Claim C9, as the code has it. When \<open>generate_descriptions\<close> returns, its result holds
  one description for every attribute of the class that is a function, whatever its
  name, each the result of \<open>generate_description\<close> on it, in the order of
  \<open>inspect.getmembers\<close>: sorted by attribute name.
\<close>

theorem generate_descriptions_all_functions:
  assumes "generate_descriptions cls = Inr ds"
  shows "map (\<lambda>(n, f). generate_description f) (getmembers_isfunction cls) = map Inr ds
         \<and> map fst (getmembers_isfunction cls) = sort (map fst (functions_of cls))
         \<and> length ds = length (functions_of cls)"
proof -
  from describe_members_ok [OF assms [unfolded generate_descriptions_def]]
  have a: "map (\<lambda>(n, f). generate_description f) (getmembers_isfunction cls) = map Inr ds"
    by simp
  have b: "map fst (getmembers_isfunction cls) = sort (map fst (functions_of cls))"
    by (simp add: getmembers_isfunction_def map_sort_key)
  from a have "length (getmembers_isfunction cls) = length ds"
    by (metis length_map)
  then have c: "length ds = length (functions_of cls)"
    by (simp add: getmembers_isfunction_def)
  from a b c show ?thesis by simp
qed

text \<open>The examples, evaluated.\<close>

lemma lower_int: "lower ''<class 'int'>'' = ''<class 'int'>''"
  by (simp add: lower_def is_upper_def)

lemma lower_str: "lower ''<class 'str'>'' = ''<class 'str'>''"
  by (simp add: lower_def is_upper_def)

lemma example_f_generated: "generate_description example_f = Inr example_f_description"
proof -
  have a: "param_description ''Combine a and b.\<newline>:param a: the count\<newline>:param b: the label'' ''a''
             = ''the count''"
    by (simp add: param_description_def startswith_def strip_def strip_chars_def whitespace_def)
  have b: "param_description ''Combine a and b.\<newline>:param a: the count\<newline>:param b: the label'' ''b''
             = ''the label''"
    by (simp add: param_description_def startswith_def strip_def strip_chars_def whitespace_def)
  have c: "extract_description ''Combine a and b.\<newline>:param a: the count\<newline>:param b: the label''
             = ''Combine a and b.''"
    by (simp add: extract_description_def startswith_def strip_def strip_chars_def whitespace_def)
  show ?thesis
    by (simp add: generate_description_def example_f_def example_f_description_def a b c
        int_annotation_def str_annotation_def lower_int lower_str optional_args_def)
qed

lemma run_method_generated: "generate_description run_method = Inr run_description"
proof -
  have a: "param_description ''Run the service.'' ''n'' = ''''"
    by (simp add: param_description_def startswith_def)
  have c: "extract_description ''Run the service.'' = ''Run the service.''"
    by (simp add: extract_description_def startswith_def strip_def strip_chars_def whitespace_def)
  show ?thesis
    by (simp add: generate_description_def run_method_def run_description_def a c
        int_annotation_def lower_int optional_args_def)
qed

lemma helper_method_generated: "generate_description helper_method = Inr helper_description"
proof -
  have c: "extract_description ''Internal.'' = ''Internal.''"
    by (simp add: extract_description_def startswith_def strip_def strip_chars_def whitespace_def)
  show ?thesis
    by (simp add: generate_description_def helper_method_def helper_description_def c
        optional_args_def)
qed

lemma example_class_members:
  "getmembers_isfunction example_class = [(''_helper'', helper_method), (''run'', run_method)]"
  by (simp add: getmembers_isfunction_def example_class_def)

lemma example_class_generated:
  "generate_descriptions example_class = Inr [helper_description, run_description]"
  by (simp add: generate_descriptions_def example_class_members helper_method_generated
      run_method_generated)

lemma kwonly_generated: "generate_description kwonly_f = Inr kwonly_description"
proof -
  have a: "param_description ''Keyword-only parameters.'' ''a'' = []"
    by (simp add: param_description_def startswith_def)
  have c: "extract_description ''Keyword-only parameters.'' = ''Keyword-only parameters.''"
    by (simp add: extract_description_def startswith_def strip_def strip_chars_def whitespace_def)
  show ?thesis
    by (simp add: generate_description_def kwonly_f_def kwonly_description_def a c
        int_annotation_def lower_int optional_args_def)
qed

lemma this_generated: "generate_description this_f = Inr this_description"
proof -
  have a: "param_description ''Receiver named this.'' ''this'' = []"
    by (simp add: param_description_def startswith_def)
  have b: "param_description ''Receiver named this.'' ''x'' = []"
    by (simp add: param_description_def startswith_def)
  have c: "extract_description ''Receiver named this.'' = ''Receiver named this.''"
    by (simp add: extract_description_def startswith_def strip_def strip_chars_def whitespace_def)
  show ?thesis
    by (simp add: generate_description_def this_f_def this_description_def a b c
        int_annotation_def lower_int optional_args_def)
qed



theorem required_parameters_witness:
  "generate_description example_f = Inr example_f_description
   \<and> distinct (args example_f)
   \<and> required (parameters example_f_description) = [''a'']
   \<and> map fst (properties (parameters example_f_description)) = [''a'', ''b'']"
proof -
  have d: "distinct (args example_f)" by (simp add: example_f_def)
  from required_parameters [OF example_f_generated d]
  have "required (parameters example_f_description) = [''a'']
   \<and> map fst (properties (parameters example_f_description)) = [''a'', ''b'']"
    by (simp add: example_f_def n_defaults_def)
  with d example_f_generated show ?thesis by simp
qed

text \<open>
  Claim C8 as stated fails. The keyword-only parameter \<open>b\<close> of \<open>kwonly\<close> has no default
  value and is neither in \<open>required\<close> nor in \<open>properties\<close>; and the receiver of \<open>m\<close>,
  named \<open>this\<close>, is listed in both.
\<close>

theorem required_keyword_only_counterexample:
  "''b'' \<in> set (kwonlyargs kwonly_f)
   \<and> kwonlydefaults kwonly_f ''b'' = None
   \<and> generate_description kwonly_f = Inr kwonly_description
   \<and> required (parameters kwonly_description) = []
   \<and> map fst (properties (parameters kwonly_description)) = [''a'']
   \<and> args this_f = [''this'', ''x'']
   \<and> generate_description this_f = Inr this_description
   \<and> required (parameters this_description) = [''this'', ''x'']
   \<and> map fst (properties (parameters this_description)) = [''this'', ''x'']"
proof -
  have "''b'' \<in> set (kwonlyargs kwonly_f) \<and> kwonlydefaults kwonly_f ''b'' = None"
    by (simp add: kwonly_f_def)
  moreover have "required (parameters kwonly_description) = []
     \<and> map fst (properties (parameters kwonly_description)) = [''a'']"
    by (simp add: kwonly_description_def)
  moreover have "args this_f = [''this'', ''x'']"
    by (simp add: this_f_def)
  moreover have "required (parameters this_description) = [''this'', ''x'']
     \<and> map fst (properties (parameters this_description)) = [''this'', ''x'']"
    by (simp add: this_description_def)
  ultimately show ?thesis using kwonly_generated this_generated by blast
qed

theorem generate_descriptions_all_functions_witness:
  "generate_descriptions example_class = Inr [helper_description, run_description]
   \<and> map fst (getmembers_isfunction example_class) = [''_helper'', ''run'']
   \<and> map (\<lambda>(n, f). generate_description f) (getmembers_isfunction example_class)
       = [Inr helper_description, Inr run_description]"
proof -
  from generate_descriptions_all_functions [OF example_class_generated]
  have "map (\<lambda>(n, f). generate_description f) (getmembers_isfunction example_class)
          = [Inr helper_description, Inr run_description]
        \<and> map fst (getmembers_isfunction example_class) = sort (map fst (functions_of example_class))"
    by simp
  moreover have "sort (map fst (functions_of example_class)) = [''_helper'', ''run'']"
    by (simp add: example_class_def)
  ultimately show ?thesis using example_class_generated by simp
qed

text \<open>
  Claim C9 as stated fails: the private method \<open>_helper\<close> gets a description, and it
  comes before that of \<open>run\<close>, which the class declares first.
\<close>

theorem private_member_described_counterexample:
  "map fst example_class = [''run'', ''_helper'', ''VERSION'']
   \<and> \<not> spec_is_public ''_helper''
   \<and> generate_descriptions example_class = Inr [helper_description, run_description]
   \<and> map name [helper_description, run_description] = [''_helper'', ''run'']"
proof -
  have a: "map fst example_class = [''run'', ''_helper'', ''VERSION'']"
    by (simp add: example_class_def)
  have b: "\<not> spec_is_public ''_helper''"
    by (simp add: spec_is_public_def startswith_def)
  have c: "map name [helper_description, run_description] = [''_helper'', ''run'']"
    by (simp add: helper_description_def run_description_def)
  from a b c example_class_generated show ?thesis by blast
qed

end
